theory Spec2Isabelle
  imports Main
begin

section \<open>JavaScript values\<close>

text \<open>
  The values that cross the adapter: event keys, correlation ids, errors, responses.
  Numbers are the integers (correlation ids); objects are property lists.
\<close>

datatype jsval =
    Undefined
  | Null
  | Bool bool
  | Num int
  | Str string
  | Arr "jsval list"
  | Obj "(string \<times> jsval) list"

text \<open>The test \<open>!error\<close> of the source is \<open>\<not> truthy error\<close>.\<close>

fun truthy :: "jsval \<Rightarrow> bool" where
  "truthy Undefined = False"
| "truthy Null = False"
| "truthy (Bool b) = b"
| "truthy (Num n) = (n \<noteq> 0)"
| "truthy (Str s) = (s \<noteq> [])"
| "truthy (Arr vs) = True"
| "truthy (Obj props) = True"

text \<open>
  The read \<open>response.result\<close>: \<open>None\<close> where JavaScript throws a TypeError (the
  receiver is null or undefined), the property's value for an object that has it,
  and \<open>undefined\<close> for every other receiver.
\<close>

fun read_result :: "jsval \<Rightarrow> jsval option" where
  "read_result Undefined = None"
| "read_result Null = None"
| "read_result (Obj props) =
     Some (case map_of props ''result'' of None \<Rightarrow> Undefined | Some v \<Rightarrow> v)"
| "read_result v = Some Undefined"

definition TypeError :: jsval where
  "TypeError = Obj [(''name'', Str ''TypeError'')]"

section \<open>Payloads\<close>

text \<open>
  A payload is one JSON-RPC request object or, for a batch, an array of them
  (the parameter of \<open>sendPayload\<close>).
\<close>

record request =
  jsonrpc :: string
  rpc_method :: string
  params :: "jsval list"
  rid :: jsval

datatype payload = Single request | Batch "request list"

text \<open>The read \<open>payload.id\<close>: an array has no such property.\<close>

fun payload_id :: "payload \<Rightarrow> jsval" where
  "payload_id (Single r) = rid r"
| "payload_id (Batch rs) = Undefined"

section \<open>Function objects and the transport\<close>

text \<open>
  The five handlers of the adapter. \<open>Method h\<close> is the method \<open>this.h\<close> itself;
  \<open>Bound h k\<close> is the function object that the \<open>k\<close>-th evaluation of
  \<open>this.h.bind(this)\<close> created (every \<open>bind\<close> creates a new object);
  \<open>Foreign k\<close> is any other function.
\<close>

datatype handler = OnAccountsChanged | OnReady | OnNetworkChanged | OnMessage | OnError

datatype fn = Method handler | Bound handler nat | Foreign nat

text \<open>
  The connection is the provider object of the page, an event emitter that the adapter
  does not own: \<open>on\<close> appends a listener to the channel, \<open>removeListener\<close> removes the
  most recently added listener that is the same function object and does nothing when
  there is none, \<open>isConnected\<close> reads the transport's own flag.
\<close>

record transport =
  listeners :: "(string \<times> fn) list"
  isConnected :: bool

datatype outcome = Resolved jsval | Rejected jsval

text \<open>
  What the adapter does, in the order in which it does it: the calls it makes on the
  connection (\<open>On\<close>, \<open>RemoveListener\<close>, \<open>Send\<close> with the promise of the callback), the
  calls of its own \<open>removeAllListeners\<close> (\<open>Cleanup\<close>), the settlements of promises, the
  calls of outward listeners (\<open>Notify\<close>), of inherited handlers (\<open>Dispatch\<close>,
  \<open>Inherited\<close>) and of other functions (\<open>Invoke\<close>), and in a batch the hooks and the
  payloads built.
\<close>

datatype action =
    On string fn
  | RemoveListener string fn
  | Send payload nat
  | Cleanup jsval
  | Settle nat outcome
  | Notify nat jsval jsval
  | Dispatch jsval
  | Inherited handler "jsval list"
  | Invoke fn "jsval list"
  | Hook nat jsval
  | ToPayload string "jsval list"

record provider =
  connection :: transport
  host :: string
  outward :: "(jsval \<times> nat) list"
  bindings :: nat
  messageId :: nat
  promises :: nat
  settled :: "(nat \<times> outcome) list"
  callbacks :: "(nat \<times> payload) list"
  reactions :: "(nat \<times> nat) list"
  trace :: "action list"

text \<open>
  \<open>outward\<close> is the listener table of the adapter's own (inherited) emitter: event key
  and listener. \<open>promises\<close> counts the promises created and \<open>settled\<close> holds the outcome
  of those that are no longer pending. \<open>callbacks\<close> holds the completion callbacks handed
  to \<open>connection.send\<close>, each with the promise and the payload it closes over;
  \<open>reactions\<close> holds the \<open>then\<close> handlers of \<open>send\<close>: the promise waited for and the
  promise \<open>then\<close> returned.
\<close>

text \<open>
  The names of the outward channels are constants that the base class defines; the base
  class is not under src, so they are parameters of the adapter, of the type the
  documentation of \<open>removeAllListeners\<close> gives its event (String).
\<close>

record channels =
  SOCKET_NETWORK_CHANGED :: string
  SOCKET_ACCOUNTS_CHANGED :: string
  SOCKET_MESSAGE :: string
  SOCKET_ERROR :: string

definition log :: "action \<Rightarrow> provider \<Rightarrow> provider" where
  "log a p = p\<lparr>trace := trace p @ [a]\<rparr>"

definition connection_on :: "string \<Rightarrow> fn \<Rightarrow> provider \<Rightarrow> provider" where
  "connection_on name f p =
     log (On name f)
       (p\<lparr>connection := (connection p)\<lparr>listeners := listeners (connection p) @ [(name, f)]\<rparr>\<rparr>)"

definition remove_last :: "'a \<Rightarrow> 'a list \<Rightarrow> 'a list" where
  "remove_last x xs = rev (remove1 x (rev xs))"

definition connection_removeListener :: "string \<Rightarrow> fn \<Rightarrow> provider \<Rightarrow> provider" where
  "connection_removeListener name f p =
     log (RemoveListener name f)
       (p\<lparr>connection :=
            (connection p)\<lparr>listeners := remove_last (name, f) (listeners (connection p))\<rparr>\<rparr>)"

definition bind_this :: "handler \<Rightarrow> provider \<Rightarrow> fn \<times> provider" where
  "bind_this h p = (Bound h (bindings p), p\<lparr>bindings := Suc (bindings p)\<rparr>)"

subsection \<open>Promises\<close>

text \<open>A promise settles once: \<open>resolve\<close> and \<open>reject\<close> on a settled promise do nothing.\<close>

definition new_promise :: "provider \<Rightarrow> nat \<times> provider" where
  "new_promise p = (promises p, p\<lparr>promises := Suc (promises p)\<rparr>)"

definition settle :: "nat \<Rightarrow> outcome \<Rightarrow> provider \<Rightarrow> provider" where
  "settle pr out p =
     (if map_of (settled p) pr = None
      then log (Settle pr out) (p\<lparr>settled := settled p @ [(pr, out)]\<rparr>)
      else p)"

definition resolve :: "nat \<Rightarrow> jsval \<Rightarrow> provider \<Rightarrow> provider" where
  "resolve pr v p = settle pr (Resolved v) p"

definition reject :: "nat \<Rightarrow> jsval \<Rightarrow> provider \<Rightarrow> provider" where
  "reject pr e p = settle pr (Rejected e) p"

text \<open>
  Promise ids that have not been created yet are unused: the state every operation
  below keeps.
\<close>

definition allocated :: "provider \<Rightarrow> bool" where
  "allocated p =
     (list_all (\<lambda>e. fst e < promises p) (settled p)
      \<and> list_all (\<lambda>e. fst e < promises p) (callbacks p)
      \<and> list_all (\<lambda>e. fst e < promises p \<and> snd e < promises p) (reactions p))"

section \<open>What the adapter inherits and imports\<close>

text \<open>
  Modelled from the spec: the base class of the adapter is not under src, so the
  inherited \<open>removeAllListeners\<close> follows section 4.3, "detaches either one specific
  outward channel [...] or, with no argument, all channels. Removing a channel that
  was never added is a no-op, not a fault", over the listener table of section 3,
  whose keys are event names and correlation ids. The overriding method hands its
  parameter on, so a call of the adapter's method without an event name reaches the
  inherited one with \<open>undefined\<close>: that is the case "with no argument".
\<close>

definition super_removeAllListeners :: "jsval \<Rightarrow> provider \<Rightarrow> provider" where
  "super_removeAllListeners event p =
     (if event = Undefined then p\<lparr>outward := []\<rparr>
      else p\<lparr>outward := filter (\<lambda>e. fst e \<noteq> event) (outward p)\<rparr>)"

text \<open>
  Modelled from the spec: \<open>emit\<close> of the inherited emitter is not under src. Section 4.3:
  the notifications are re-emitted "under the adapter's own event names, performing
  identity translation only (no payload mutation)": every listener registered under
  the event is called with the argument, in the order of registration.
\<close>

definition emit :: "jsval \<Rightarrow> jsval \<Rightarrow> provider \<Rightarrow> provider" where
  "emit event arg p =
     p\<lparr>trace := trace p
          @ map (\<lambda>e. Notify (snd e) event arg) (filter (\<lambda>e. fst e = event) (outward p))\<rparr>"

text \<open>
  Modelled from the spec: the inherited \<open>onMessage\<close> is not under src. Section 4.3 has
  the message handler forward "the payload to the Call Dispatcher"; what reaches that
  path is recorded.
\<close>

definition super_onMessage :: "jsval \<Rightarrow> provider \<Rightarrow> provider" where
  "super_onMessage response p = log (Dispatch response) p"

text \<open>
  Modelled from the spec: \<open>JsonRpcMapper.toPayload\<close> is not under src. Sections 3 and
  4.1: the payload is "{ method, params, id, jsonrpc: "2.0" }" and carries a fresh
  correlation id; the only side effect is the generation of the id.
\<close>

definition toPayload :: "string \<Rightarrow> jsval list \<Rightarrow> provider \<Rightarrow> request \<times> provider" where
  "toPayload m ps p =
     (\<lparr>jsonrpc = ''2.0'', rpc_method = m, params = ps, rid = Num (int (messageId p))\<rparr>,
      log (ToPayload m ps) (p\<lparr>messageId := Suc (messageId p)\<rparr>))"

text \<open>
  Modelled from the spec: \<open>JsonRpcResponseValidator.validate\<close> is not under src. The
  adapter only asks whether the value it returns is an \<open>Error\<close>: \<open>Some e\<close> is the error
  \<open>e\<close>, \<open>None\<close> any other value. Section 4.2: "a response missing result and missing
  error is invalid; a response carrying a non-null error is always an error outcome
  regardless of result's presence; message/data in the error are passed through
  unmodified"; the error of a malformed response, which the spec leaves open, is the
  parameter \<open>malformed\<close>.
\<close>

definition validate :: "jsval \<Rightarrow> jsval \<Rightarrow> jsval option" where
  "validate malformed response =
     (case response of
        Obj props \<Rightarrow>
          (case map_of props ''error'' of
             Some e \<Rightarrow>
               (if e \<noteq> Null \<and> e \<noteq> Undefined then Some e
                else if map_of props ''result'' = None then Some malformed else None)
           | None \<Rightarrow> if map_of props ''result'' = None then Some malformed else None)
      | _ \<Rightarrow> Some malformed)"

text \<open>
  A queued method, as far as the adapter uses it: the properties \<open>rpcMethod\<close> and
  \<open>parameters\<close>, and the hook \<open>beforeExecution(moduleInstance)\<close>, which may rewrite both.
  Methods are objects: \<open>sendBatch\<close> receives references into a heap, and the hook
  updates the object it is called on.
\<close>

datatype amethod =
  AbstractMethod (rpcMethod: string) (parameters: "jsval list")
    (hook: "jsval \<Rightarrow> string \<times> jsval list \<Rightarrow> string \<times> jsval list")

definition beforeExecution :: "jsval \<Rightarrow> amethod \<Rightarrow> amethod" where
  "beforeExecution moduleInstance m =
     (case hook m moduleInstance (rpcMethod m, parameters m) of
        (r, ps) \<Rightarrow> AbstractMethod r ps (hook m))"

section \<open>The adapter\<close>

text \<open>
  The constructor: \<open>super(inpageProvider, null); this.host = 'metamask'\<close>. Nothing is
  attached, pending or registered yet.
\<close>

definition MetamaskInpageProvider :: "transport \<Rightarrow> provider" where
  "MetamaskInpageProvider inpageProvider =
     \<lparr>connection = inpageProvider, host = ''metamask'', outward = [], bindings = 0,
      messageId = 0, promises = 0, settled = [], callbacks = [], reactions = [],
      trace = []\<rparr>"

definition registerEventListeners :: "provider \<Rightarrow> provider" where
  "registerEventListeners p0 =
     (let (f1, p1) = bind_this OnAccountsChanged p0;
          q1 = connection_on ''accountsChanged'' f1 p1;
          (f2, p2) = bind_this OnReady q1;
          q2 = connection_on ''networkChanged'' f2 p2;
          (f3, p3) = bind_this OnNetworkChanged q2;
          q3 = connection_on ''networkChanged'' f3 p3;
          (f4, p4) = bind_this OnMessage q3;
          q4 = connection_on ''data'' f4 p4;
          (f5, p5) = bind_this OnError q4
      in connection_on ''error'' f5 p5)"

definition onMessage :: "jsval \<Rightarrow> jsval \<Rightarrow> provider \<Rightarrow> provider" where
  "onMessage metamaskParam payload p = super_onMessage payload p"

text \<open>
  The \<open>switch\<close> of \<open>removeAllListeners\<close> compares with \<open>===\<close> and takes the first case
  that matches; the inherited method runs in every case.
\<close>

definition removeAllListeners :: "channels \<Rightarrow> jsval \<Rightarrow> provider \<Rightarrow> provider" where
  "removeAllListeners c event p =
     (let p0 = log (Cleanup event) p;
          p1 =
            (if event = Str (SOCKET_NETWORK_CHANGED c)
               then connection_removeListener ''networkChanged'' (Method OnNetworkChanged) p0
             else if event = Str (SOCKET_ACCOUNTS_CHANGED c)
               then connection_removeListener ''accountsChanged'' (Method OnAccountsChanged) p0
             else if event = Str (SOCKET_MESSAGE c)
               then connection_removeListener ''data'' (Method OnMessage) p0
             else if event = Str (SOCKET_ERROR c)
               then connection_removeListener ''error'' (Method OnError) p0
             else p0)
      in super_removeAllListeners event p1)"

definition onNetworkChanged :: "jsval \<Rightarrow> provider \<Rightarrow> provider" where
  "onNetworkChanged networkId p = emit (Str ''networkChanged'') networkId p"

definition onAccountsChanged :: "jsval \<Rightarrow> provider \<Rightarrow> provider" where
  "onAccountsChanged accounts p = emit (Str ''accountsChanged'') accounts p"

definition disconnect :: "provider \<Rightarrow> bool \<times> provider" where
  "disconnect p = (True, p)"

definition connected :: "provider \<Rightarrow> bool" where
  "connected p = isConnected (connection p)"

text \<open>
  \<open>sendPayload\<close> creates the promise and writes the payload with a completion callback;
  \<open>sendPayload_callback\<close> is the body of that callback, for the \<open>payload\<close> and the
  promise \<open>pr\<close> it closes over.
\<close>

definition sendPayload :: "payload \<Rightarrow> provider \<Rightarrow> nat \<times> provider" where
  "sendPayload payload p =
     (case new_promise p of
        (pr, p1) \<Rightarrow> (pr, log (Send payload pr) (p1\<lparr>callbacks := callbacks p1 @ [(pr, payload)]\<rparr>)))"

definition sendPayload_callback ::
  "channels \<Rightarrow> payload \<Rightarrow> nat \<Rightarrow> jsval \<Rightarrow> jsval \<Rightarrow> provider \<Rightarrow> provider" where
  "sendPayload_callback c payload pr error response p =
     (let p1 = removeAllListeners c (payload_id payload) p
      in if \<not> truthy error then resolve pr response p1 else reject pr error p1)"

text \<open>
  \<open>send\<close> returns the promise of \<open>then\<close>; \<open>send_then\<close> is the handler given to \<open>then\<close>,
  run for the promise \<open>pr\<close> of \<open>sendPayload\<close> and the promise \<open>res\<close> that \<open>then\<close> returned:
  a rejection of \<open>pr\<close> passes the handler by, a \<open>throw\<close> in the handler (the validation
  error, or the TypeError of reading \<open>result\<close> from null or undefined) rejects \<open>res\<close>.
\<close>

definition send :: "string \<Rightarrow> jsval list \<Rightarrow> provider \<Rightarrow> nat \<times> provider" where
  "send m ps p =
     (case toPayload m ps p of
        (payload, p1) \<Rightarrow>
          (case sendPayload (Single payload) p1 of
             (pr, p2) \<Rightarrow>
               (case new_promise p2 of
                  (res, p3) \<Rightarrow> (res, p3\<lparr>reactions := reactions p3 @ [(pr, res)]\<rparr>))))"

definition send_then ::
  "(jsval \<Rightarrow> jsval option) \<Rightarrow> nat \<Rightarrow> nat \<Rightarrow> provider \<Rightarrow> provider" where
  "send_then validator pr res p =
     (case map_of (settled p) pr of
        None \<Rightarrow> p
      | Some (Rejected e) \<Rightarrow> reject res e p
      | Some (Resolved response) \<Rightarrow>
          (case validator response of
             Some validationResult \<Rightarrow> reject res validationResult p
           | None \<Rightarrow>
               (case read_result response of
                  None \<Rightarrow> reject res TypeError p
                | Some v \<Rightarrow> resolve res v p)))"

definition batch_step ::
  "jsval \<Rightarrow> nat \<Rightarrow> (nat \<Rightarrow> amethod) \<times> request list \<times> provider
     \<Rightarrow> (nat \<Rightarrow> amethod) \<times> request list \<times> provider" where
  "batch_step moduleInstance r s =
     (case s of
        (heap, payload, p) \<Rightarrow>
          (let m = beforeExecution moduleInstance (heap r);
               p1 = log (Hook r moduleInstance) p
           in case toPayload (rpcMethod m) (parameters m) p1 of
                (req, p2) \<Rightarrow> (heap(r := m), payload @ [req], p2)))"

definition sendBatch ::
  "nat list \<Rightarrow> jsval \<Rightarrow> (nat \<Rightarrow> amethod) \<Rightarrow> provider \<Rightarrow> nat \<times> (nat \<Rightarrow> amethod) \<times> provider" where
  "sendBatch methods moduleInstance heap p =
     (case fold (batch_step moduleInstance) methods (heap, [], p) of
        (heap', payload, p1) \<Rightarrow>
          (case sendPayload (Batch payload) p1 of (pr, p2) \<Rightarrow> (pr, heap', p2)))"

section \<open>The transport at work\<close>

text \<open>
  The transport completes the write whose callback belongs to promise \<open>pr\<close> by calling
  it with \<open>(error, response)\<close>; a callback it was never given cannot be called. The
  \<open>then\<close> handler waiting for \<open>pr\<close> runs once the callback has returned.
\<close>

definition completes :: "channels \<Rightarrow> nat \<Rightarrow> jsval \<Rightarrow> jsval \<Rightarrow> provider \<Rightarrow> provider" where
  "completes c pr error response p =
     (case map_of (callbacks p) pr of
        None \<Rightarrow> p
      | Some payload \<Rightarrow> sendPayload_callback c payload pr error response p)"

definition react :: "(jsval \<Rightarrow> jsval option) \<Rightarrow> nat \<Rightarrow> provider \<Rightarrow> provider" where
  "react validator pr p =
     (case map_of (reactions p) pr of
        None \<Rightarrow> p
      | Some res \<Rightarrow> send_then validator pr res p)"

definition delivery ::
  "(jsval \<Rightarrow> jsval option) \<Rightarrow> channels \<Rightarrow> nat \<Rightarrow> jsval \<Rightarrow> jsval \<Rightarrow> provider \<Rightarrow> provider" where
  "delivery validator c pr error response p =
     react validator pr (completes c pr error response p)"

text \<open>
  A native notification: the transport calls the listeners attached to the channel, in
  the order of attachment, with the arguments of the notification; a missing argument
  is \<open>undefined\<close>. The handlers \<open>onReady\<close> and \<open>onError\<close> are inherited and recorded.
\<close>

definition argument :: "jsval list \<Rightarrow> nat \<Rightarrow> jsval" where
  "argument args i = (if i < length args then args ! i else Undefined)"

fun call :: "fn \<Rightarrow> jsval list \<Rightarrow> provider \<Rightarrow> provider" where
  "call (Bound OnAccountsChanged k) args p = onAccountsChanged (argument args 0) p"
| "call (Bound OnNetworkChanged k) args p = onNetworkChanged (argument args 0) p"
| "call (Bound OnMessage k) args p = onMessage (argument args 0) (argument args 1) p"
| "call (Bound h k) args p = log (Inherited h args) p"
| "call f args p = log (Invoke f args) p"

definition notify :: "string \<Rightarrow> jsval list \<Rightarrow> provider \<Rightarrow> provider" where
  "notify name args p =
     fold (\<lambda>e q. if fst e = name then call (snd e) args q else q) (listeners (connection p)) p"


section \<open>Vocabulary of the properties\<close>

text \<open>The outcome that the completion callback chooses for its promise.\<close>

definition settlement :: "jsval \<Rightarrow> jsval \<Rightarrow> outcome" where
  "settlement error response = (if \<not> truthy error then Resolved response else Rejected error)"

fun is_RemoveListener :: "action \<Rightarrow> bool" where
  "is_RemoveListener (RemoveListener name f) = True"
| "is_RemoveListener a = False"

fun is_Hook :: "action \<Rightarrow> bool" where
  "is_Hook (Hook r moduleInstance) = True"
| "is_Hook a = False"

fun is_Send :: "action \<Rightarrow> bool" where
  "is_Send (Send payload pr) = True"
| "is_Send a = False"

text \<open>
  The actions of a batch before its write, for the queued methods and the payloads
  built for them: for every method its hook, then the building of its payload.
\<close>

definition steps :: "jsval \<Rightarrow> nat list \<Rightarrow> request list \<Rightarrow> action list" where
  "steps moduleInstance methods rs =
     concat (map (\<lambda>e. [Hook (fst e) moduleInstance,
                         ToPayload (rpc_method (snd e)) (params (snd e))]) (zip methods rs))"

subsection \<open>Concrete inputs\<close>

definition metamask :: transport where
  "metamask = \<lparr>listeners = [], isConnected = True\<rparr>"

definition names :: channels where
  "names = \<lparr>SOCKET_NETWORK_CHANGED = ''socket_networkChanged'',
     SOCKET_ACCOUNTS_CHANGED = ''socket_accountsChanged'',
     SOCKET_MESSAGE = ''socket_message'', SOCKET_ERROR = ''socket_error''\<rparr>"

definition accounts_request :: request where
  "accounts_request =
     \<lparr>jsonrpc = ''2.0'', rpc_method = ''eth_accounts'', params = [], rid = Num 5\<rparr>"

text \<open>An adapter with two outward listeners: one under the key 5, one on a channel.\<close>

definition listening :: provider where
  "listening =
     (MetamaskInpageProvider metamask)\<lparr>outward := [(Num 5, 0), (Str ''socket_message'', 1)]\<rparr>"

definition keep :: "jsval \<Rightarrow> string \<times> jsval list \<Rightarrow> string \<times> jsval list" where
  "keep moduleInstance s = s"

definition queued :: "nat \<Rightarrow> amethod" where
  "queued r = AbstractMethod (if r = 0 then ''eth_accounts'' else ''eth_blockNumber'') [] keep"

section \<open>Basic facts\<close>

subsection \<open>Attaching and detaching\<close>

lemma registerEventListeners_listeners:
  "listeners (connection (registerEventListeners p)) =
     listeners (connection p) @
       [(''accountsChanged'', Bound OnAccountsChanged (bindings p)),
        (''networkChanged'', Bound OnReady (bindings p + 1)),
        (''networkChanged'', Bound OnNetworkChanged (bindings p + 2)),
        (''data'', Bound OnMessage (bindings p + 3)),
        (''error'', Bound OnError (bindings p + 4))]"
  by (simp add: registerEventListeners_def bind_this_def connection_on_def log_def)

lemma registerEventListeners_bindings:
  "bindings (registerEventListeners p) = bindings p + 5"
  by (simp add: registerEventListeners_def bind_this_def connection_on_def log_def)

lemma registerEventListeners_trace:
  "trace (registerEventListeners p) =
     trace p @
       [On ''accountsChanged'' (Bound OnAccountsChanged (bindings p)),
        On ''networkChanged'' (Bound OnReady (bindings p + 1)),
        On ''networkChanged'' (Bound OnNetworkChanged (bindings p + 2)),
        On ''data'' (Bound OnMessage (bindings p + 3)),
        On ''error'' (Bound OnError (bindings p + 4))]"
  by (simp add: registerEventListeners_def bind_this_def connection_on_def log_def)

lemma registerEventListeners_outward:
  "outward (registerEventListeners p) = outward p"
  by (simp add: registerEventListeners_def bind_this_def connection_on_def log_def)

lemma remove_last_absent: "x \<notin> set xs \<Longrightarrow> remove_last x xs = xs"
  by (simp add: remove_last_def remove1_idem)

text \<open>
  The adapter only ever asks the connection to remove its methods themselves. Where
  the connection holds none of them, nothing is detached.
\<close>

lemma removeAllListeners_bound_only:
  assumes "\<forall>e \<in> set (listeners (connection p)). \<forall>h. snd e \<noteq> Method h"
  shows "listeners (connection (removeAllListeners c event p)) = listeners (connection p)"
proof -
  have "\<And>name h. remove_last (name, Method h) (listeners (connection p)) = listeners (connection p)"
    using assms by (intro remove_last_absent) force
  then show ?thesis
    by (simp add: removeAllListeners_def connection_removeListener_def log_def
        super_removeAllListeners_def Let_def)
qed

lemma removeAllListeners_trace:
  "\<exists>mid. trace (removeAllListeners c event p) = trace p @ Cleanup event # mid
         \<and> list_all is_RemoveListener mid"
  by (simp add: removeAllListeners_def connection_removeListener_def log_def
      super_removeAllListeners_def Let_def)

lemma removeAllListeners_frame:
  "settled (removeAllListeners c event p) = settled p"
  "promises (removeAllListeners c event p) = promises p"
  "callbacks (removeAllListeners c event p) = callbacks p"
  "reactions (removeAllListeners c event p) = reactions p"
  "messageId (removeAllListeners c event p) = messageId p"
  by (simp_all add: removeAllListeners_def connection_removeListener_def log_def
      super_removeAllListeners_def Let_def)

lemma removeAllListeners_outward:
  "filter (\<lambda>e. fst e = event) (outward (removeAllListeners c event p)) = []"
  by (simp add: removeAllListeners_def connection_removeListener_def log_def
      super_removeAllListeners_def Let_def filter_empty_conv)

lemma removeAllListeners_Undefined:
  "removeAllListeners c Undefined p = p\<lparr>trace := trace p @ [Cleanup Undefined], outward := []\<rparr>"
  by (simp add: removeAllListeners_def super_removeAllListeners_def log_def Let_def)

subsection \<open>Settling\<close>

lemma settle_fields:
  "outward (settle pr out p) = outward p"
  "connection (settle pr out p) = connection p"
  "promises (settle pr out p) = promises p"
  "callbacks (settle pr out p) = callbacks p"
  "reactions (settle pr out p) = reactions p"
  by (simp_all add: settle_def log_def)

lemma settle_trace:
  "trace (settle pr out p) =
     trace p @ (if map_of (settled p) pr = None then [Settle pr out] else [])"
  by (simp add: settle_def log_def)

lemma settle_pending:
  "map_of (settled p) pr = None \<Longrightarrow> map_of (settled (settle pr out p)) pr = Some out"
  by (simp add: settle_def log_def map_add_def)

lemma settle_other:
  "k \<noteq> pr \<Longrightarrow> map_of (settled (settle pr out p)) k = map_of (settled p) k"
  by (simp add: settle_def log_def map_add_def split: option.splits)

lemma sendPayload_callback_eq:
  "sendPayload_callback c payload pr error response p =
     settle pr (settlement error response) (removeAllListeners c (payload_id payload) p)"
  by (simp add: sendPayload_callback_def settlement_def resolve_def reject_def Let_def)

lemma sendPayload_callback_trace:
  "\<exists>mid. trace (sendPayload_callback c payload pr error response p) =
           trace p @ Cleanup (payload_id payload) # mid
             @ (if map_of (settled p) pr = None then [Settle pr (settlement error response)] else [])
         \<and> list_all is_RemoveListener mid"
  using removeAllListeners_trace [of c "payload_id payload" p]
  by (auto simp add: sendPayload_callback_eq settle_trace removeAllListeners_frame)

lemma react_unregistered: "map_of (reactions p) pr = None \<Longrightarrow> react validator pr p = p"
  by (simp add: react_def)

subsection \<open>Sending\<close>

lemma sendPayload_fields:
  "fst (sendPayload payload p) = promises p"
  "callbacks (snd (sendPayload payload p)) = callbacks p @ [(promises p, payload)]"
  "settled (snd (sendPayload payload p)) = settled p"
  "reactions (snd (sendPayload payload p)) = reactions p"
  "promises (snd (sendPayload payload p)) = Suc (promises p)"
  "trace (snd (sendPayload payload p)) = trace p @ [Send payload (promises p)]"
  "outward (snd (sendPayload payload p)) = outward p"
  "connection (snd (sendPayload payload p)) = connection p"
  by (simp_all add: sendPayload_def new_promise_def log_def)

lemma send_fields:
  "fst (send m ps p) = Suc (promises p)"
  "callbacks (snd (send m ps p)) =
     callbacks p @ [(promises p,
       Single \<lparr>jsonrpc = ''2.0'', rpc_method = m, params = ps, rid = Num (int (messageId p))\<rparr>)]"
  "reactions (snd (send m ps p)) = reactions p @ [(promises p, Suc (promises p))]"
  "settled (snd (send m ps p)) = settled p"
  "promises (snd (send m ps p)) = Suc (Suc (promises p))"
  "trace (snd (send m ps p)) = trace p @ [ToPayload m ps,
     Send (Single \<lparr>jsonrpc = ''2.0'', rpc_method = m, params = ps, rid = Num (int (messageId p))\<rparr>)
       (promises p)]"
  by (simp_all add: send_def toPayload_def sendPayload_def new_promise_def log_def)

subsection \<open>Promise ids stay allocated\<close>

lemma allocated_unused:
  assumes "allocated p" and "promises p \<le> k"
  shows "map_of (settled p) k = None" and "map_of (callbacks p) k = None"
    and "map_of (reactions p) k = None"
  using assms by (force simp add: allocated_def map_of_eq_None_iff list_all_iff)+

lemma allocated_new: "allocated (MetamaskInpageProvider inpageProvider)"
  by (simp add: allocated_def MetamaskInpageProvider_def)

lemma allocated_sendPayload: "allocated p \<Longrightarrow> allocated (snd (sendPayload payload p))"
  by (auto simp add: allocated_def sendPayload_fields list_all_iff)

lemma allocated_send: "allocated p \<Longrightarrow> allocated (snd (send m ps p))"
  by (auto simp add: allocated_def send_fields list_all_iff)

lemma allocated_registerEventListeners:
  "allocated p \<Longrightarrow> allocated (registerEventListeners p)"
  by (simp add: allocated_def registerEventListeners_def bind_this_def connection_on_def log_def)

lemma allocated_removeAllListeners: "allocated p \<Longrightarrow> allocated (removeAllListeners c event p)"
  by (simp add: allocated_def removeAllListeners_frame)

lemma allocated_settle: "allocated p \<Longrightarrow> pr < promises p \<Longrightarrow> allocated (settle pr out p)"
  by (simp add: allocated_def settle_def log_def)

lemma allocated_completes:
  assumes "allocated p"
  shows "allocated (completes c pr error response p)"
proof (cases "map_of (callbacks p) pr")
  case None
  then show ?thesis using assms by (simp add: completes_def)
next
  case (Some payload)
  then have "(pr, payload) \<in> set (callbacks p)" by (rule map_of_SomeD)
  then have "pr < promises p" using assms by (auto simp add: allocated_def list_all_iff)
  then show ?thesis using assms Some
    by (simp add: completes_def sendPayload_callback_eq allocated_settle
        allocated_removeAllListeners removeAllListeners_frame)
qed

lemma allocated_react:
  assumes "allocated p"
  shows "allocated (react validator pr p)"
proof (cases "map_of (reactions p) pr")
  case None
  then show ?thesis using assms by (simp add: react_def)
next
  case (Some res)
  then have "(pr, res) \<in> set (reactions p)" by (rule map_of_SomeD)
  then have "res < promises p" using assms by (auto simp add: allocated_def list_all_iff)
  then show ?thesis using assms Some
    by (simp add: react_def send_then_def resolve_def reject_def allocated_settle
        split: option.splits outcome.splits)
qed

lemma allocated_delivery: "allocated p \<Longrightarrow> allocated (delivery validator c pr error response p)"
  by (simp add: delivery_def allocated_react allocated_completes)

text \<open>\<open>sendPayload\<close> hands the transport a callback for its payload and a pending promise.\<close>

lemma sendPayload_registers:
  assumes "allocated p"
  shows "map_of (callbacks (snd (sendPayload payload p))) (fst (sendPayload payload p)) = Some payload
   \<and> map_of (settled (snd (sendPayload payload p))) (fst (sendPayload payload p)) = None"
proof -
  have "map_of (callbacks p) (promises p) = None" "map_of (settled p) (promises p) = None"
    using assms by (simp_all add: allocated_unused)
  then show ?thesis
    by (simp add: sendPayload_fields map_add_def)
qed

section \<open>The listeners on the connection\<close>

text \<open>
  C5, amended: \<open>registerEventListeners\<close> attaches five freshly bound listeners on four
  native channels, in this order: \<open>accountsChanged\<close>; \<open>networkChanged\<close> twice, for the
  ready handler and for the network handler; \<open>data\<close>, the message channel; \<open>error\<close>.
  It is not idempotent: every call attaches five more, so after a second call the
  connection holds ten listeners more than before the first.
\<close>

theorem registerEventListeners_attaches_five:
  "listeners (connection (registerEventListeners p)) =
     listeners (connection p) @
       [(''accountsChanged'', Bound OnAccountsChanged (bindings p)),
        (''networkChanged'', Bound OnReady (bindings p + 1)),
        (''networkChanged'', Bound OnNetworkChanged (bindings p + 2)),
        (''data'', Bound OnMessage (bindings p + 3)),
        (''error'', Bound OnError (bindings p + 4))]
   \<and> length (listeners (connection (registerEventListeners (registerEventListeners p)))) =
       length (listeners (connection p)) + 10"
  by (simp add: registerEventListeners_listeners)

text \<open>
  A second call on a fresh adapter attaches a listener that the first call did not,
  the connection then holds ten listeners, and one native \<open>accountsChanged\<close>
  notification reaches the outward listener twice.
\<close>

theorem registerEventListeners_twice_counterexample:
  "(''accountsChanged'', Bound OnAccountsChanged 5) \<in> set (listeners (connection
          (registerEventListeners (registerEventListeners (MetamaskInpageProvider metamask)))))
   \<and> (''accountsChanged'', Bound OnAccountsChanged 5) \<notin> set (listeners (connection
          (registerEventListeners (MetamaskInpageProvider metamask))))
   \<and> length (listeners (connection
          (registerEventListeners (registerEventListeners (MetamaskInpageProvider metamask))))) = 10
   \<and> drop 10 (trace (notify ''accountsChanged'' [Arr []]
        (registerEventListeners (registerEventListeners
           ((MetamaskInpageProvider metamask)\<lparr>outward := [(Str ''accountsChanged'', 0)]\<rparr>))))) =
       [Notify 0 (Str ''accountsChanged'') (Arr []), Notify 0 (Str ''accountsChanged'') (Arr [])]"
  by (simp add: notify_def registerEventListeners_listeners registerEventListeners_bindings
      registerEventListeners_trace registerEventListeners_outward
      MetamaskInpageProvider_def metamask_def onAccountsChanged_def emit_def argument_def log_def)

text \<open>
  C6: \<open>removeAllListeners\<close> is to detach the native listener that
  \<open>registerEventListeners\<close> attached for the channel. It does not. Whatever the event
  and the channel names, the five listeners attached to a connection that had none are
  all still attached afterwards: the function removed is the method, the function
  attached is its bound copy. After \<open>removeAllListeners(SOCKET_NETWORK_CHANGED)\<close> a
  native \<open>networkChanged\<close> notification still runs both of its handlers and still reaches
  the outward listener.
\<close>

theorem removeAllListeners_detaches_nothing:
  "listeners (connection (removeAllListeners c event
      (registerEventListeners (MetamaskInpageProvider \<lparr>listeners = [], isConnected = b\<rparr>)))) =
     [(''accountsChanged'', Bound OnAccountsChanged 0),
      (''networkChanged'', Bound OnReady 1),
      (''networkChanged'', Bound OnNetworkChanged 2),
      (''data'', Bound OnMessage 3),
      (''error'', Bound OnError 4)]
   \<and> drop 7 (trace (notify ''networkChanged'' [Num 3]
        (removeAllListeners names (Str ''socket_networkChanged'')
           (registerEventListeners
              ((MetamaskInpageProvider metamask)\<lparr>outward := [(Str ''networkChanged'', 0)]\<rparr>))))) =
       [Inherited OnReady [Num 3], Notify 0 (Str ''networkChanged'') (Num 3)]"
proof
  show "listeners (connection (removeAllListeners c event
      (registerEventListeners (MetamaskInpageProvider \<lparr>listeners = [], isConnected = b\<rparr>)))) =
     [(''accountsChanged'', Bound OnAccountsChanged 0),
      (''networkChanged'', Bound OnReady 1),
      (''networkChanged'', Bound OnNetworkChanged 2),
      (''data'', Bound OnMessage 3),
      (''error'', Bound OnError 4)]"
    by (subst removeAllListeners_bound_only)
       (auto simp add: registerEventListeners_listeners MetamaskInpageProvider_def)
  show "drop 7 (trace (notify ''networkChanged'' [Num 3]
        (removeAllListeners names (Str ''socket_networkChanged'')
           (registerEventListeners
              ((MetamaskInpageProvider metamask)\<lparr>outward := [(Str ''networkChanged'', 0)]\<rparr>))))) =
       [Inherited OnReady [Num 3], Notify 0 (Str ''networkChanged'') (Num 3)]"
    by (simp add: notify_def removeAllListeners_def connection_removeListener_def log_def
        super_removeAllListeners_def Let_def names_def remove_last_def
        registerEventListeners_def bind_this_def connection_on_def
        MetamaskInpageProvider_def metamask_def onNetworkChanged_def emit_def argument_def)
qed

text \<open>
  C7: of a native message notification \<open>(metamaskParam, payload)\<close> the handler hands
  the payload alone to the inherited \<open>onMessage\<close>. The adapter after the handler does
  not depend on the first argument, and a notification on the \<open>data\<close> channel of a
  started adapter dispatches the payload and does nothing else.
\<close>

theorem onMessage_forwards_payload_only:
  "onMessage metamaskParam payload p = super_onMessage payload p
   \<and> onMessage metamaskParam payload p = onMessage other payload p
   \<and> trace (notify ''data'' [metamaskParam, payload]
        (registerEventListeners (MetamaskInpageProvider \<lparr>listeners = [], isConnected = b\<rparr>))) =
       trace (registerEventListeners (MetamaskInpageProvider \<lparr>listeners = [], isConnected = b\<rparr>))
         @ [Dispatch payload]
   \<and> notify ''data'' [metamaskParam, payload]
        (registerEventListeners (MetamaskInpageProvider \<lparr>listeners = [], isConnected = b\<rparr>)) =
       notify ''data'' [other, payload]
        (registerEventListeners (MetamaskInpageProvider \<lparr>listeners = [], isConnected = b\<rparr>))"
  by (simp add: onMessage_def notify_def registerEventListeners_def bind_this_def
      connection_on_def MetamaskInpageProvider_def argument_def super_onMessage_def log_def)

section \<open>Connection state\<close>

text \<open>
  C8: \<open>disconnect()\<close> returns true on every invocation, whatever the connection state
  of the transport, and tears nothing down: the adapter and its transport are as
  they were, and no call reaches the connection.
\<close>

theorem disconnect_true_no_teardown:
  "fst (disconnect p) = True \<and> snd (disconnect p) = p
   \<and> connection (snd (disconnect p)) = connection p
   \<and> trace (snd (disconnect p)) = trace p"
  by (simp add: disconnect_def)

text \<open>
  C9: the property \<open>connected\<close> is the boolean of the transport's own connectivity
  query and depends on nothing else of the adapter.
\<close>

theorem connected_is_transport_flag:
  "connected p = isConnected (connection p)
   \<and> (connection p = connection q \<longrightarrow> connected p = connected q)"
  by (simp add: connected_def)

theorem connected_is_transport_flag_witness:
  "connected (MetamaskInpageProvider metamask) = True
   \<and> connection (listening\<lparr>host := ''other''\<rparr>) = connection (MetamaskInpageProvider metamask)
   \<and> connected (listening\<lparr>host := ''other''\<rparr>) = connected (MetamaskInpageProvider metamask)"
  using connected_is_transport_flag
    [of "listening\<lparr>host := ''other''\<rparr>" "MetamaskInpageProvider metamask"]
    connected_is_transport_flag [of "MetamaskInpageProvider metamask"]
  by (simp add: MetamaskInpageProvider_def metamask_def listening_def)

section \<open>Single calls\<close>

text \<open>
  C1: whenever the transport completes a write by calling the callback that
  \<open>sendPayload\<close> made for a payload, with an error or with a response, the callback first
  calls \<open>removeAllListeners(payload.id)\<close>; the promise settles after that call, as the
  last action of the callback, and at that moment no outward listener is registered
  under \<open>payload.id\<close>. Between the two the adapter only asks the connection to
  remove listeners. A callback called again finds its promise settled and cleans up
  all the same.
\<close>

theorem cleanup_before_settlement:
  assumes "map_of (callbacks q) pr = Some payload"
  shows "\<exists>mid. trace (completes c pr error response q) =
             trace q @ Cleanup (payload_id payload) # mid
               @ (if map_of (settled q) pr = None
                  then [Settle pr (if truthy error then Rejected error else Resolved response)]
                  else [])
           \<and> list_all is_RemoveListener mid
           \<and> filter (\<lambda>e. fst e = payload_id payload)
                (outward (completes c pr error response q)) = []"
  using assms sendPayload_callback_trace [of c payload pr error response q]
  by (auto simp add: completes_def sendPayload_callback_eq settle_fields
      removeAllListeners_outward settlement_def)

theorem cleanup_before_settlement_witness:
  "map_of (callbacks (snd (sendPayload (Single accounts_request) listening))) 0 =
     Some (Single accounts_request)
   \<and> filter (\<lambda>e. fst e = Num 5)
       (outward (completes names 0 Null (Obj [(''id'', Num 5), (''result'', Arr [])])
          (snd (sendPayload (Single accounts_request) listening)))) = []
   \<and> (\<exists>mid. trace (completes names 0 Null (Obj [(''id'', Num 5), (''result'', Arr [])])
          (snd (sendPayload (Single accounts_request) listening))) =
         Send (Single accounts_request) 0 # Cleanup (Num 5) # mid
           @ [Settle 0 (Resolved (Obj [(''id'', Num 5), (''result'', Arr [])]))])"
  using cleanup_before_settlement
    [of "snd (sendPayload (Single accounts_request) listening)" 0 "Single accounts_request"
        names Null "Obj [(''id'', Num 5), (''result'', Arr [])]"]
  by (auto simp add: sendPayload_def new_promise_def log_def listening_def
      MetamaskInpageProvider_def accounts_request_def)

text \<open>
  C3: when the callback of a pending \<open>sendPayload\<close> promise is called with an error,
  the promise rejects with exactly that error, and the cleanup call comes before the
  rejection; when it is called with no error, the promise resolves with the response
  as delivered. The callback tests \<open>!error\<close>: every object is an error in that sense,
  null and undefined are none.
\<close>

theorem transport_error_rejects:
  assumes "map_of (callbacks q) pr = Some payload" and "map_of (settled q) pr = None"
  shows "(truthy error \<longrightarrow>
            map_of (settled (completes c pr error response q)) pr = Some (Rejected error)
            \<and> (\<exists>mid. trace (completes c pr error response q) =
                  trace q @ Cleanup (payload_id payload) # mid @ [Settle pr (Rejected error)]
                  \<and> list_all is_RemoveListener mid))
         \<and> (\<not> truthy error \<longrightarrow>
            map_of (settled (completes c pr error response q)) pr = Some (Resolved response))
         \<and> (\<forall>props. error = Obj props \<longrightarrow> truthy error)
         \<and> (error = Null \<or> error = Undefined \<longrightarrow> \<not> truthy error)"
proof -
  have eq: "completes c pr error response q =
      settle pr (settlement error response) (removeAllListeners c (payload_id payload) q)"
    using assms(1) by (simp add: completes_def sendPayload_callback_eq)
  have out: "map_of (settled (completes c pr error response q)) pr = Some (settlement error response)"
    unfolding eq using assms(2) by (simp add: settle_pending removeAllListeners_frame)
  obtain mid where mid: "trace (removeAllListeners c (payload_id payload) q) =
      trace q @ Cleanup (payload_id payload) # mid" "list_all is_RemoveListener mid"
    using removeAllListeners_trace by blast
  have tr: "trace (completes c pr error response q) =
      trace q @ Cleanup (payload_id payload) # mid @ [Settle pr (settlement error response)]"
    unfolding eq using assms(2) mid(1) by (simp add: settle_trace removeAllListeners_frame)
  show ?thesis
    using out tr mid(2) by (auto simp add: settlement_def)
qed

theorem transport_error_rejects_witness:
  "map_of (callbacks (snd (sendPayload (Single accounts_request) listening))) 0 =
     Some (Single accounts_request)
   \<and> map_of (settled (snd (sendPayload (Single accounts_request) listening))) 0 = None
   \<and> truthy (Obj [(''message'', Str ''write failed'')])
   \<and> map_of (settled (completes names 0 (Obj [(''message'', Str ''write failed'')]) Undefined
        (snd (sendPayload (Single accounts_request) listening)))) 0 =
       Some (Rejected (Obj [(''message'', Str ''write failed'')]))"
  using transport_error_rejects
    [of "snd (sendPayload (Single accounts_request) listening)" 0 "Single accounts_request"
        "Obj [(''message'', Str ''write failed'')]" names Undefined]
  by (simp add: sendPayload_def new_promise_def log_def listening_def
      MetamaskInpageProvider_def)

subsection \<open>Validation\<close>

lemma size_property: "(k, v) \<in> set props \<Longrightarrow> size v < size (Obj props)"
  by (induction props) auto

text \<open>A property of a response is never the response.\<close>

lemma read_result_not_envelope: "read_result response = Some v \<Longrightarrow> v \<noteq> response"
proof (cases response)
  case (Obj props)
  assume r: "read_result response = Some v"
  show ?thesis
  proof (cases "map_of props ''result''")
    case None
    with r Obj show ?thesis by auto
  next
    case (Some x)
    then have "(''result'', x) \<in> set props" by (rule map_of_SomeD)
    then have "size x < size (Obj props)" by (rule size_property)
    with r Obj Some show ?thesis by auto
  qed
qed auto

text \<open>The validator of the spec accepts only objects that carry a result.\<close>

lemma validate_accepts_results:
  "validate malformed response = None \<Longrightarrow>
   \<exists>props v. response = Obj props \<and> map_of props ''result'' = Some v
     \<and> read_result response = Some v"
  by (cases response) (auto simp add: validate_def split: option.splits if_splits)

text \<open>
  What the promise of \<open>send\<close> settles with, for every completion of its write: the
  transport's error; or the validator's error; or the TypeError of reading \<open>result\<close>
  from a null or undefined response that the validator let pass; or the result.
\<close>

lemma delivery_of_send:
  assumes "allocated p"
  shows "map_of (settled (delivery validator c (promises p) error response (snd (send m ps p))))
           (fst (send m ps p)) =
         Some (case settlement error response of
                 Rejected e \<Rightarrow> Rejected e
               | Resolved r \<Rightarrow>
                   (case validator r of
                      Some validationResult \<Rightarrow> Rejected validationResult
                    | None \<Rightarrow> (case read_result r of None \<Rightarrow> Rejected TypeError
                                | Some v \<Rightarrow> Resolved v)))"
proof -
  let ?pr = "promises p" and ?res = "Suc (promises p)"
  let ?p1 = "snd (send m ps p)"
  let ?payload = "Single \<lparr>jsonrpc = ''2.0'', rpc_method = m, params = ps,
      rid = Num (int (messageId p))\<rparr>"
  have fresh: "map_of (callbacks p) ?pr = None" "map_of (settled p) ?pr = None"
    "map_of (reactions p) ?pr = None" "map_of (settled p) ?res = None"
    using assms by (simp_all add: allocated_unused)
  have cb: "map_of (callbacks ?p1) ?pr = Some ?payload"
    using fresh(1) by (simp add: send_fields map_add_def)
  let ?p2 = "completes c ?pr error response ?p1"
  have p2: "?p2 = settle ?pr (settlement error response)
      (removeAllListeners c (payload_id ?payload) ?p1)"
    using cb by (simp add: completes_def sendPayload_callback_eq)
  have s_pr: "map_of (settled ?p2) ?pr = Some (settlement error response)"
    unfolding p2 using fresh(2)
    by (simp add: settle_pending removeAllListeners_frame send_fields)
  have s_res: "map_of (settled ?p2) ?res = None"
    unfolding p2 using fresh(4)
    by (simp add: settle_other removeAllListeners_frame send_fields)
  have re: "map_of (reactions ?p2) ?pr = Some ?res"
    unfolding p2 using fresh(3)
    by (simp add: settle_fields removeAllListeners_frame send_fields map_add_def)
  show ?thesis
    using s_pr s_res re
    by (simp add: delivery_def react_def send_then_def send_fields resolve_def reject_def
        settle_pending split: outcome.splits option.splits)
qed

text \<open>
  C2: \<open>send(method, parameters)\<close> writes one payload built from its arguments. When the
  transport delivers a response for it (the callback reports no error) and the
  validator classifies the response as an error, the promise of \<open>send\<close> rejects with
  exactly the validator's error; otherwise it resolves with the \<open>result\<close> field of the
  response, which is not the response itself. The validator is any function that lets
  only responses pass from which \<open>result\<close> can be read, as the validator of section 4.2
  does.
\<close>

theorem send_rejects_or_resolves_result:
  assumes "allocated p" and "\<not> truthy error"
    and "validator response = None \<longrightarrow> read_result response \<noteq> None"
  shows "last (trace (snd (send m ps p))) =
           Send (Single \<lparr>jsonrpc = ''2.0'', rpc_method = m, params = ps,
                   rid = Num (int (messageId p))\<rparr>) (promises p)
         \<and> (\<forall>e. validator response = Some e \<longrightarrow>
               map_of (settled (delivery validator c (promises p) error response
                 (snd (send m ps p)))) (fst (send m ps p)) = Some (Rejected e))
         \<and> (validator response = None \<longrightarrow>
               (\<exists>v. read_result response = Some v \<and> v \<noteq> response
                  \<and> map_of (settled (delivery validator c (promises p) error response
                       (snd (send m ps p)))) (fst (send m ps p)) = Some (Resolved v)))"
  using assms(2,3) delivery_of_send [OF assms(1), of validator c error response m ps]
  by (auto simp add: settlement_def send_fields read_result_not_envelope)

theorem send_rejects_or_resolves_result_witness:
  "allocated listening \<and> \<not> truthy Null
   \<and> validate (Str ''malformed'') (Obj [(''id'', Num 0), (''result'', Str ''0x1'')]) = None
   \<and> map_of (settled (delivery (validate (Str ''malformed'')) names (promises listening) Null
         (Obj [(''id'', Num 0), (''result'', Str ''0x1'')])
         (snd (send ''eth_blockNumber'' [] listening))))
       (fst (send ''eth_blockNumber'' [] listening)) = Some (Resolved (Str ''0x1''))
   \<and> validate (Str ''malformed'')
         (Obj [(''id'', Num 0), (''error'', Obj [(''code'', Num (- 32000))])]) =
       Some (Obj [(''code'', Num (- 32000))])
   \<and> map_of (settled (delivery (validate (Str ''malformed'')) names (promises listening) Null
         (Obj [(''id'', Num 0), (''error'', Obj [(''code'', Num (- 32000))])])
         (snd (send ''eth_blockNumber'' [] listening))))
       (fst (send ''eth_blockNumber'' [] listening)) =
       Some (Rejected (Obj [(''code'', Num (- 32000))]))"
  using send_rejects_or_resolves_result
    [of listening Null "validate (Str ''malformed'')"
        "Obj [(''id'', Num 0), (''result'', Str ''0x1'')]" "''eth_blockNumber''" "[]" names]
    send_rejects_or_resolves_result
    [of listening Null "validate (Str ''malformed'')"
        "Obj [(''id'', Num 0), (''error'', Obj [(''code'', Num (- 32000))])]"
        "''eth_blockNumber''" "[]" names]
  by (simp add: allocated_def listening_def MetamaskInpageProvider_def validate_def)

section \<open>Batches\<close>

lemma steps_snoc:
  "length methods = length rs \<Longrightarrow>
   steps mi (methods @ [r]) (rs @ [q]) =
     steps mi methods rs @ [Hook r mi, ToPayload (rpc_method q) (params q)]"
  by (simp add: steps_def)

lemma steps_hooks:
  "length methods = length rs \<Longrightarrow>
   filter is_Hook (steps mi methods rs) = map (\<lambda>r. Hook r mi) methods"
  by (induction methods rs rule: list_induct2) (simp_all add: steps_def)

lemma steps_sends: "filter is_Send (steps mi methods rs) = []"
  by (induction methods arbitrary: rs) (auto simp add: steps_def zip_Cons1 split: list.splits)

lemma steps_nth:
  "length methods = length rs \<Longrightarrow> i < length methods \<Longrightarrow>
   steps mi methods rs ! (2 * i) = Hook (methods ! i) mi
   \<and> steps mi methods rs ! (2 * i + 1) = ToPayload (rpc_method (rs ! i)) (params (rs ! i))"
proof (induction methods rs arbitrary: i rule: list_induct2)
  case Nil
  then show ?case by simp
next
  case (Cons x xs y ys)
  then show ?case by (cases i) (simp_all add: steps_def)
qed

lemma steps_length:
  "length methods = length rs \<Longrightarrow> length (steps mi methods rs) = 2 * length methods"
  by (induction methods rs rule: list_induct2) (simp_all add: steps_def)

text \<open>One turn of the \<open>forEach\<close> loop of \<open>sendBatch\<close>.\<close>

lemma batch_step_eq:
  "batch_step mi r (heap, payload, p) =
     (heap(r := beforeExecution mi (heap r)),
      payload @ [\<lparr>jsonrpc = ''2.0'', rpc_method = rpcMethod (beforeExecution mi (heap r)),
                   params = parameters (beforeExecution mi (heap r)),
                   rid = Num (int (messageId p))\<rparr>],
      p\<lparr>messageId := Suc (messageId p),
        trace := trace p @ [Hook r mi,
          ToPayload (rpcMethod (beforeExecution mi (heap r)))
            (parameters (beforeExecution mi (heap r)))]\<rparr>)"
  by (simp add: batch_step_def toPayload_def log_def Let_def)

text \<open>
  The whole loop, by induction on the queue from its end: one payload per queued
  method, in the order of the queue, with fresh consecutive ids; methods that are not
  queued are untouched; where no method is queued twice, every queued method has had
  its hook applied exactly once and its payload is built from what the hook left.
\<close>

lemma fold_batch_step:
  "\<exists>heap' rs. fold (batch_step mi) methods (heap, payload, p) =
       (heap', payload @ rs,
        p\<lparr>messageId := messageId p + length methods,
          trace := trace p @ steps mi methods rs\<rparr>)
     \<and> length rs = length methods
     \<and> map rid rs = map (\<lambda>i. Num (int (messageId p + i))) [0..<length methods]
     \<and> (\<forall>r. r \<notin> set methods \<longrightarrow> heap' r = heap r)
     \<and> (distinct methods \<longrightarrow>
          (\<forall>r \<in> set methods. heap' r = beforeExecution mi (heap r))
          \<and> map (\<lambda>q. (rpc_method q, params q)) rs =
              map (\<lambda>r. (rpcMethod (beforeExecution mi (heap r)),
                         parameters (beforeExecution mi (heap r)))) methods)"
proof (induction methods rule: rev_induct)
  case Nil
  show ?case by (simp add: steps_def)
next
  case (snoc r methods)
  then obtain heap' rs where
    run: "fold (batch_step mi) methods (heap, payload, p) =
       (heap', payload @ rs,
        p\<lparr>messageId := messageId p + length methods,
          trace := trace p @ steps mi methods rs\<rparr>)"
    and len: "length rs = length methods"
    and ids: "map rid rs = map (\<lambda>i. Num (int (messageId p + i))) [0..<length methods]"
    and frame: "\<forall>r. r \<notin> set methods \<longrightarrow> heap' r = heap r"
    and once: "distinct methods \<longrightarrow>
          (\<forall>r \<in> set methods. heap' r = beforeExecution mi (heap r))
          \<and> map (\<lambda>q. (rpc_method q, params q)) rs =
              map (\<lambda>r. (rpcMethod (beforeExecution mi (heap r)),
                         parameters (beforeExecution mi (heap r)))) methods"
    by blast
  let ?m = "beforeExecution mi (heap' r)"
  let ?q = "\<lparr>jsonrpc = ''2.0'', rpc_method = rpcMethod ?m, params = parameters ?m,
      rid = Num (int (messageId p + length methods))\<rparr>"
  have "fold (batch_step mi) (methods @ [r]) (heap, payload, p) =
       (heap'(r := ?m), payload @ (rs @ [?q]),
        p\<lparr>messageId := messageId p + length (methods @ [r]),
          trace := trace p @ steps mi (methods @ [r]) (rs @ [?q])\<rparr>)"
    using len by (simp add: run batch_step_eq steps_snoc)
  moreover have "length (rs @ [?q]) = length (methods @ [r])"
    using len by simp
  moreover have "map rid (rs @ [?q]) =
      map (\<lambda>i. Num (int (messageId p + i))) [0..<length (methods @ [r])]"
    using ids by simp
  moreover have "\<forall>x. x \<notin> set (methods @ [r]) \<longrightarrow> (heap'(r := ?m)) x = heap x"
    using frame by simp
  moreover have "distinct (methods @ [r]) \<longrightarrow>
          (\<forall>x \<in> set (methods @ [r]). (heap'(r := ?m)) x = beforeExecution mi (heap x))
          \<and> map (\<lambda>q. (rpc_method q, params q)) (rs @ [?q]) =
              map (\<lambda>r. (rpcMethod (beforeExecution mi (heap r)),
                         parameters (beforeExecution mi (heap r)))) (methods @ [r])"
    using once frame by auto
  ultimately show ?case by blast
qed

text \<open>
  C4: for every queue of methods, \<open>sendBatch\<close> does, in this order and nothing else:
  for every queued method its hook \<open>beforeExecution\<close>, then the building of its payload;
  then one write, whose body is the array of these payloads in the order of the
  queue. The hooks called are those of the queue, one call per queued method, in
  order; where no method is queued twice, every method has had its hook applied
  exactly once and its payload carries what the hook left. When the transport
  delivers the reply, the promise resolves with the reply as it is: no validator is
  asked and no promise but this one settles.
\<close>

theorem sendBatch_single_ordered_write:
  assumes "allocated p"
  shows "\<exists>heap' rs p'.
      sendBatch methods moduleInstance heap p = (promises p, heap', p')
      \<and> length rs = length methods
      \<and> trace p' = trace p @ steps moduleInstance methods rs @ [Send (Batch rs) (promises p)]
      \<and> filter is_Hook (drop (length (trace p)) (trace p')) =
          map (\<lambda>r. Hook r moduleInstance) methods
      \<and> filter is_Send (drop (length (trace p)) (trace p')) = [Send (Batch rs) (promises p)]
      \<and> (\<forall>i < length methods.
            drop (length (trace p)) (trace p') ! (2 * i) = Hook (methods ! i) moduleInstance
            \<and> drop (length (trace p)) (trace p') ! (2 * i + 1) =
                ToPayload (rpc_method (rs ! i)) (params (rs ! i)))
      \<and> (distinct methods \<longrightarrow>
            (\<forall>r \<in> set methods. heap' r = beforeExecution moduleInstance (heap r))
            \<and> map (\<lambda>q. (rpc_method q, params q)) rs =
                map (\<lambda>r. (rpcMethod (beforeExecution moduleInstance (heap r)),
                           parameters (beforeExecution moduleInstance (heap r)))) methods)
      \<and> (\<not> truthy error \<longrightarrow>
            map_of (settled (delivery validator c (promises p) error response p')) (promises p) =
              Some (Resolved response)
            \<and> settled (delivery validator c (promises p) error response p') =
                settled p @ [(promises p, Resolved response)])"
proof -
  obtain heap' rs where
    run: "fold (batch_step moduleInstance) methods (heap, [], p) =
       (heap', [] @ rs,
        p\<lparr>messageId := messageId p + length methods,
          trace := trace p @ steps moduleInstance methods rs\<rparr>)"
    and len: "length rs = length methods"
    and once: "distinct methods \<longrightarrow>
          (\<forall>r \<in> set methods. heap' r = beforeExecution moduleInstance (heap r))
          \<and> map (\<lambda>q. (rpc_method q, params q)) rs =
              map (\<lambda>r. (rpcMethod (beforeExecution moduleInstance (heap r)),
                         parameters (beforeExecution moduleInstance (heap r)))) methods"
    using fold_batch_step [of moduleInstance methods heap "[]" p] by blast
  let ?p1 = "p\<lparr>messageId := messageId p + length methods,
          trace := trace p @ steps moduleInstance methods rs\<rparr>"
  let ?p' = "snd (sendPayload (Batch rs) ?p1)"
  have batch: "sendBatch methods moduleInstance heap p = (promises p, heap', ?p')"
    by (simp add: sendBatch_def run sendPayload_def new_promise_def)
  have tr: "trace ?p' = trace p @ steps moduleInstance methods rs @ [Send (Batch rs) (promises p)]"
    by (simp add: sendPayload_fields)
  have added: "drop (length (trace p)) (trace ?p') =
      steps moduleInstance methods rs @ [Send (Batch rs) (promises p)]"
    by (simp add: tr)
  have hooks: "filter is_Hook (drop (length (trace p)) (trace ?p')) =
      map (\<lambda>r. Hook r moduleInstance) methods"
    using len by (simp add: added steps_hooks)
  have sends: "filter is_Send (drop (length (trace p)) (trace ?p')) =
      [Send (Batch rs) (promises p)]"
    by (simp add: added steps_sends)
  have len2: "length (steps moduleInstance methods rs) = 2 * length methods"
    using len by (simp add: steps_length)
  have pos: "\<forall>i < length methods.
            drop (length (trace p)) (trace ?p') ! (2 * i) = Hook (methods ! i) moduleInstance
            \<and> drop (length (trace p)) (trace ?p') ! (2 * i + 1) =
                ToPayload (rpc_method (rs ! i)) (params (rs ! i))"
    using len steps_nth [of methods rs _ moduleInstance]
    by (simp add: added nth_append len2)
  have fresh: "map_of (callbacks p) (promises p) = None" "map_of (settled p) (promises p) = None"
    "map_of (reactions p) (promises p) = None"
    using assms by (simp_all add: allocated_unused)
  have cb: "map_of (callbacks ?p') (promises p) = Some (Batch rs)"
    using fresh(1) by (simp add: sendPayload_fields map_add_def)
  let ?p2 = "completes c (promises p) error response ?p'"
  have p2: "?p2 = settle (promises p) (settlement error response)
      (removeAllListeners c Undefined ?p')"
    using cb by (simp add: completes_def sendPayload_callback_eq)
  have no_reaction: "map_of (reactions ?p2) (promises p) = None"
    unfolding p2 using fresh(3)
    by (simp add: settle_fields removeAllListeners_frame sendPayload_fields)
  have deliv: "delivery validator c (promises p) error response ?p' = ?p2"
    using no_reaction by (simp add: delivery_def react_unregistered)
  have settled: "\<not> truthy error \<longrightarrow> settled ?p2 = settled p @ [(promises p, Resolved response)]"
    unfolding p2 using fresh(2)
    by (simp add: settle_def log_def removeAllListeners_frame sendPayload_fields settlement_def)
  have out: "\<not> truthy error \<longrightarrow> map_of (settled ?p2) (promises p) = Some (Resolved response)"
    using settled fresh(2) by (simp add: map_add_def)
  show ?thesis
    using batch len tr hooks sends pos once settled out deliv
    by (intro exI [of _ heap'] exI [of _ rs] exI [of _ ?p']) simp
qed

theorem sendBatch_single_ordered_write_witness:
  "allocated listening \<and> distinct [0, 1 :: nat] \<and> \<not> truthy Null
   \<and> fst (sendBatch [0, 1] Null queued listening) = 0
   \<and> filter is_Hook (trace (snd (snd (sendBatch [0, 1] Null queued listening)))) =
       [Hook 0 Null, Hook 1 Null]
   \<and> length (filter is_Send (trace (snd (snd (sendBatch [0, 1] Null queued listening))))) = 1"
  using sendBatch_single_ordered_write
    [of listening "[0, 1]" Null queued Null "validate (Str ''malformed'')" names "Arr []"]
  by (auto simp add: allocated_def listening_def MetamaskInpageProvider_def)

text \<open>
  C10, amended: when the callback of a \<open>sendPayload\<close> call on an array of payloads runs,
  the cleanup call passes \<open>payload.id\<close>, which is undefined for an array; the call
  matches no outward channel case, so the adapter asks the connection to remove
  nothing and all native listeners stay attached.
\<close>

theorem batch_settlement_cleanup:
  assumes "map_of (callbacks q) pr = Some (Batch rs)"
  shows "payload_id (Batch rs) = Undefined
    \<and> trace (completes c pr error response q) =
        trace q @ Cleanup Undefined
          # (if map_of (settled q) pr = None
             then [Settle pr (if truthy error then Rejected error else Resolved response)]
             else [])
    \<and> connection (completes c pr error response q) = connection q"
  using assms
  by (simp add: completes_def sendPayload_callback_eq removeAllListeners_Undefined
      settle_trace settle_fields settlement_def)

theorem batch_settlement_cleanup_witness:
  "map_of (callbacks (snd (sendPayload (Batch [accounts_request]) listening))) 0 =
     Some (Batch [accounts_request])
   \<and> trace (completes names 0 Null (Arr []) (snd (sendPayload (Batch [accounts_request]) listening))) =
       [Send (Batch [accounts_request]) 0, Cleanup Undefined, Settle 0 (Resolved (Arr []))]"
  using batch_settlement_cleanup
    [of "snd (sendPayload (Batch [accounts_request]) listening)" 0 "[accounts_request]"
        names Null "Arr []"]
  by (simp add: sendPayload_def new_promise_def log_def listening_def MetamaskInpageProvider_def)

text \<open>
  The listener registered under 5, the correlation id of the request in the batch, is
  there when the batch is written and gone when the batch has settled: the inherited
  removal, reached with undefined, detaches all outward channels.
\<close>

theorem batch_settlement_counterexample:
  "payload_id (Single accounts_request) = Num 5
   \<and> outward (snd (sendPayload (Batch [accounts_request]) listening)) =
       [(Num 5, 0), (Str ''socket_message'', 1)]
   \<and> outward (completes names 0 Null (Arr [])
        (snd (sendPayload (Batch [accounts_request]) listening))) = []"
  by (simp add: sendPayload_def new_promise_def log_def listening_def MetamaskInpageProvider_def
      completes_def sendPayload_callback_eq removeAllListeners_Undefined settle_fields
      accounts_request_def)

end
